theory Spec2Isabelle
  imports Main "HOL-Library.Sublist"
begin

section \<open>The Giphy plugin of plugin.go\<close>

text \<open>
  Go strings are byte sequences; they are modelled as \<^typ>\<open>string\<close> (a list of
  8-bit characters). A Go \<^verbatim>\<open>error\<close> value is represented by the text its
  \<^verbatim>\<open>Error()\<close> method returns, and \<^verbatim>\<open>nil\<close> by \<^term>\<open>None\<close>.
\<close>

subsection \<open>Constants\<close>

definition triggerGif :: string where
  "triggerGif = ''gif''"

definition triggerGifs :: string where
  "triggerGifs = ''gifs''"

text \<open>The two response types of the host's model package, and net/http's status.\<close>

definition COMMAND_RESPONSE_TYPE_IN_CHANNEL :: string where
  "COMMAND_RESPONSE_TYPE_IN_CHANNEL = ''in_channel''"

definition COMMAND_RESPONSE_TYPE_EPHEMERAL :: string where
  "COMMAND_RESPONSE_TYPE_EPHEMERAL = ''ephemeral''"

definition StatusBadRequest :: int where
  "StatusBadRequest = 400"

subsection \<open>Data\<close>

record GiphyPluginConfiguration =
  Rating :: string
  Language :: string
  Rendition :: string
  ResponseTemplate :: string
  APIKey :: string

text \<open>The zero value of the struct, as \<^verbatim>\<open>var configuration GiphyPluginConfiguration\<close> gives it.\<close>

definition zero_configuration :: GiphyPluginConfiguration where
  "zero_configuration =
     \<lparr>Rating = [], Language = [], Rendition = [], ResponseTemplate = [], APIKey = []\<rparr>"

text \<open>The fields of the host's \<^verbatim>\<open>model.Command\<close> that OnActivate sets.\<close>

record Command =
  Trigger :: string
  Description :: string
  DisplayName :: string
  AutoComplete :: bool
  AutoCompleteDesc :: string
  AutoCompleteHint :: string

text \<open>
  The host's \<^verbatim>\<open>model.CommandArgs\<close>: only the command line is read by the plugin.
\<close>

record CommandArgs =
  Command :: string

record CommandResponse =
  ResponseType :: string
  Text :: string

text \<open>
  The host's \<^verbatim>\<open>model.AppError\<close>, with the fields that
  \<^verbatim>\<open>model.NewAppError(where, id, params, details, status)\<close> fills in: the message is
  the id (no translation function is installed in the plugin process).
\<close>

record AppError =
  Where :: string
  ErrorId :: string
  Message :: string
  DetailedError :: string
  StatusCode :: int

definition NewAppError :: "string \<Rightarrow> string \<Rightarrow> string \<Rightarrow> int \<Rightarrow> AppError" where
  "NewAppError wher ident details status =
     \<lparr>Where = wher, ErrorId = ident, Message = ident, DetailedError = details,
      StatusCode = status\<rparr>"

text \<open>
  The host's \<^verbatim>\<open>plugin.API\<close> handle, with the two methods the plugin calls.
  \<^verbatim>\<open>LoadPluginConfiguration(&configuration)\<close> writes through the pointer and returns
  an error: the model maps the struct passed in to the struct after the call and the
  error (\<^term>\<open>None\<close> for nil).
\<close>

record API =
  RegisterCommand :: "Command \<Rightarrow> string option"
  LoadPluginConfiguration ::
    "GiphyPluginConfiguration \<Rightarrow> GiphyPluginConfiguration \<times> string option"

text \<open>
  The \<^verbatim>\<open>gifProvider\<close> interface. Its declaration and its implementation are not in
  plugin.go: the provider is a parameter of the model, a pair of functions from the
  configuration snapshot and the keywords to an error (\<^term>\<open>Inl\<close>) or the URLs found.
\<close>

record gifProvider =
  getGifURL :: "GiphyPluginConfiguration \<Rightarrow> string \<Rightarrow> string + string"
  getMultipleGifsURL :: "GiphyPluginConfiguration \<Rightarrow> string \<Rightarrow> string + string list"

text \<open>
  The plugin struct. An interface field is \<^term>\<open>None\<close> when nil; the
  \<^verbatim>\<open>atomic.Value\<close> is \<^term>\<open>None\<close> as long as nothing has been stored in it.
\<close>

record GiphyPlugin =
  api :: "API option"
  configuration :: "GiphyPluginConfiguration option"
  gifProvider :: "gifProvider option"
  enabled :: bool

text \<open>
  What a method call does: it returns a value or panics (a nil dereference, a failed type
  assertion); it calls the provider (the calls are logged in order); it leaves the
  plugin struct in some state.
\<close>

datatype 'a outcome = Returned 'a | Panicked

datatype provider_call =
    CallGetGifURL GiphyPluginConfiguration string
  | CallGetMultipleGifsURL GiphyPluginConfiguration string

record 'a effect =
  result :: "'a outcome"
  calls :: "provider_call list"
  state :: GiphyPlugin

subsection \<open>The string functions of Go's library that the plugin uses\<close>

text \<open>\<^verbatim>\<open>strings.HasPrefix(s, prefix)\<close>.\<close>

definition HasPrefix :: "string \<Rightarrow> string \<Rightarrow> bool" where
  "HasPrefix s pre = (take (length pre) s = pre)"

text \<open>
  \<^verbatim>\<open>strings.Replace(s, old, new, n)\<close> for \<open>n \<ge> 0\<close> and a non-empty \<open>old\<close> (the
  plugin passes \<open>"/" + trigger\<close>): the first \<open>n\<close> non-overlapping occurrences of
  \<open>old\<close>, from the left, are replaced by \<open>new\<close>.
\<close>

fun Replace :: "string \<Rightarrow> string \<Rightarrow> string \<Rightarrow> nat \<Rightarrow> string" where
  "Replace s old new 0 = s"
| "Replace [] old new (Suc n) = []"
| "Replace (c # cs) old new (Suc n) =
     (if HasPrefix (c # cs) old
      then new @ Replace (drop (length old) (c # cs)) old new n
      else c # Replace cs old new (Suc n))"

text \<open>
  \<^verbatim>\<open>strings.Trim(s, cutset)\<close> for a cutset of ASCII bytes: the leading and trailing
  bytes that belong to the cutset are removed.
\<close>

definition TrimLeft :: "string \<Rightarrow> string \<Rightarrow> string" where
  "TrimLeft s cutset = dropWhile (\<lambda>c. c \<in> set cutset) s"

definition TrimRight :: "string \<Rightarrow> string \<Rightarrow> string" where
  "TrimRight s cutset = rev (dropWhile (\<lambda>c. c \<in> set cutset) (rev s))"

definition Trim :: "string \<Rightarrow> string \<Rightarrow> string" where
  "Trim s cutset = TrimLeft (TrimRight s cutset) cutset"

text \<open>
  \<^verbatim>\<open>strings.NewReplacer(oldnew...).Replace(s)\<close> for non-empty old strings: the
  string is scanned once from the left; at each position the old strings are compared
  in argument order, the first that matches is replaced by its new string and the scan
  goes on after the match; otherwise the byte is copied.
\<close>

fun lookup :: "(string \<times> string) list \<Rightarrow> string \<Rightarrow> (string \<times> string) option" where
  "lookup [] s = None"
| "lookup ((old, new) # oldnew) s =
     (if old \<noteq> [] \<and> HasPrefix s old then Some (old, new) else lookup oldnew s)"

function Replacer_Replace :: "(string \<times> string) list \<Rightarrow> string \<Rightarrow> string" where
  "Replacer_Replace oldnew [] = []"
| "Replacer_Replace oldnew (c # cs) =
     (case lookup oldnew (c # cs) of
        Some (old, new) \<Rightarrow> new @ Replacer_Replace oldnew (drop (length old) (c # cs))
      | None \<Rightarrow> c # Replacer_Replace oldnew cs)"
  by pat_completeness auto

termination Replacer_Replace
proof (relation "measure (\<lambda>(oldnew, s). length s)")
  show "wf (measure (\<lambda>(oldnew :: (string \<times> string) list, s :: string). length s))"
    by simp
next
  fix oldnew :: "(string \<times> string) list" and c :: char and cs :: string
    and x2 :: "string \<times> string" and old new :: string
  assume found: "lookup oldnew (c # cs) = Some x2" and x2: "(old, new) = x2"
  have "lookup ps s = Some (old, new) \<Longrightarrow> old \<noteq> []" for ps s
    by (induction ps) (auto split: if_splits)
  with found x2 have "old \<noteq> []"
    by metis
  then show "((oldnew, drop (length old) (c # cs)), (oldnew, c # cs))
      \<in> measure (\<lambda>(oldnew, s). length s)"
    by (cases old) simp_all
next
  fix oldnew :: "(string \<times> string) list" and c :: char and cs :: string
  show "((oldnew, cs), (oldnew, c # cs)) \<in> measure (\<lambda>(oldnew, s). length s)"
    by simp
qed

subsection \<open>The plugin\<close>

definition appError :: "string \<Rightarrow> string option \<Rightarrow> AppError" where
  "appError message err =
     (let errorMessage = (case err of None \<Rightarrow> [] | Some e \<Rightarrow> e)
      in NewAppError ''Giphy Plugin'' message errorMessage StatusBadRequest)"

definition getCommandKeywords :: "string \<Rightarrow> string \<Rightarrow> string" where
  "getCommandKeywords commandLine trigger =
     Trim (Replace commandLine (''/'' @ trigger) [] 1) '' ''"

definition VIA_GIPHY :: string where
  "VIA_GIPHY = ''via ![giphy](https://giphy.com/static/img/favicon.png)''"

definition placeholders :: "string \<Rightarrow> string \<Rightarrow> (string \<times> string) list" where
  "placeholders keywords gifURL =
     [(''##KEYWORDS##'', keywords), (''##GIF_URL##'', gifURL), (''##VIA_GIPHY##'', VIA_GIPHY)]"

definition applyResponseTemplate :: "string \<Rightarrow> string \<Rightarrow> string \<Rightarrow> string" where
  "applyResponseTemplate template keywords gifURL =
     Replacer_Replace (placeholders keywords gifURL) template"

text \<open>\<^verbatim>\<open>p.configuration.Load().(*GiphyPluginConfiguration)\<close>: panics when nothing is stored.\<close>

definition config :: "GiphyPlugin \<Rightarrow> GiphyPluginConfiguration option" where
  "config p = configuration p"

definition OnConfigurationChange :: "GiphyPlugin \<Rightarrow> (string option) effect" where
  "OnConfigurationChange p =
     (case api p of
        None \<Rightarrow> \<lparr>result = Panicked, calls = [], state = p\<rparr>
      | Some a \<Rightarrow>
          (case LoadPluginConfiguration a zero_configuration of
             (loaded, err) \<Rightarrow>
               \<lparr>result = Returned err, calls = [],
                state = p\<lparr>configuration := Some loaded\<rparr>\<rparr>))"

definition gifCommand :: Command where
  "gifCommand =
     \<lparr>Trigger = triggerGif,
      Description = ''Posts a Giphy GIF that matches the keyword(s)'',
      DisplayName = ''Giphy command'',
      AutoComplete = True,
      AutoCompleteDesc = ''Posts a Giphy GIF that matches the keyword(s)'',
      AutoCompleteHint = ''happy kitty''\<rparr>"

definition gifsCommand :: Command where
  "gifsCommand =
     \<lparr>Trigger = triggerGifs,
      Description = ''Shows a preview of 10 GIFS matching the keyword(s)'',
      DisplayName = ''Giphy preview command'',
      AutoComplete = True,
      AutoCompleteDesc = ''Shows a preview of 10 GIFS matching the keyword(s)'',
      AutoCompleteHint = ''happy kitty''\<rparr>"

text \<open>
  OnActivate receives the handle as an argument; a nil handle panics at the first
  method call, after the two assignments.
\<close>

definition OnActivate :: "GiphyPlugin \<Rightarrow> API option \<Rightarrow> (string option) effect" where
  "OnActivate p handle =
     (let p1 = p\<lparr>api := handle, enabled := True\<rparr>
      in case handle of
           None \<Rightarrow> \<lparr>result = Panicked, calls = [], state = p1\<rparr>
         | Some a \<Rightarrow>
             (case RegisterCommand a gifCommand of
                Some err \<Rightarrow> \<lparr>result = Returned (Some err), calls = [], state = p1\<rparr>
              | None \<Rightarrow>
                  (case RegisterCommand a gifsCommand of
                     Some err \<Rightarrow> \<lparr>result = Returned (Some err), calls = [], state = p1\<rparr>
                   | None \<Rightarrow> OnConfigurationChange p1)))"

definition OnDeactivate :: "GiphyPlugin \<Rightarrow> (string option) effect" where
  "OnDeactivate p = \<lparr>result = Returned None, calls = [], state = p\<lparr>enabled := False\<rparr>\<rparr>"

definition executeCommandGif :: "GiphyPlugin \<Rightarrow> string \<Rightarrow> (AppError + CommandResponse) effect"
  where
  "executeCommandGif p command =
     (let keywords = getCommandKeywords command triggerGif
      in case config p of
           None \<Rightarrow> \<lparr>result = Panicked, calls = [], state = p\<rparr>
         | Some cfg \<Rightarrow>
             (case gifProvider p of
                None \<Rightarrow> \<lparr>result = Panicked, calls = [], state = p\<rparr>
              | Some provider \<Rightarrow>
                  (case getGifURL provider cfg keywords of
                     Inl err \<Rightarrow>
                       \<lparr>result = Returned (Inl (appError ''Unable to get GIF URL'' (Some err))),
                        calls = [CallGetGifURL cfg keywords], state = p\<rparr>
                   | Inr gifURL \<Rightarrow>
                       (let text = applyResponseTemplate (ResponseTemplate cfg) keywords gifURL
                        in \<lparr>result = Returned (Inr
                               \<lparr>ResponseType = COMMAND_RESPONSE_TYPE_IN_CHANNEL, Text = text\<rparr>),
                            calls = [CallGetGifURL cfg keywords], state = p\<rparr>))))"

text \<open>\<^verbatim>\<open>fmt.Sprintf("[![GIF for '%s'](%s)](%s)", keywords, url, url)\<close>.\<close>

definition gifLink :: "string \<Rightarrow> string \<Rightarrow> string" where
  "gifLink keywords url =
     ''[![GIF for '' @ [CHR 0x27] @ keywords @ [CHR 0x27] @ ''](''
       @ url @ '')]('' @ url @ '')''"

text \<open>\<^verbatim>\<open>fmt.Sprintf(" *Suggestions for '%s':*", keywords)\<close>.\<close>

definition suggestionsHeader :: "string \<Rightarrow> string" where
  "suggestionsHeader keywords =
     '' *Suggestions for '' @ [CHR 0x27] @ keywords @ [CHR 0x27] @ '':*''"

text \<open>
  The loop \<^verbatim>\<open>for i, url := range gifURLs\<close>, from index \<open>i\<close> on, with the text
  built so far.
\<close>

fun gifsLoop :: "string \<Rightarrow> nat \<Rightarrow> string list \<Rightarrow> string \<Rightarrow> string" where
  "gifsLoop keywords i [] text = text"
| "gifsLoop keywords i (url # gifURLs) text =
     gifsLoop keywords (Suc i) gifURLs
       ((if i > 0 then text @ [CHR 0x09] else text) @ gifLink keywords url)"

definition executeCommandGifs :: "GiphyPlugin \<Rightarrow> string \<Rightarrow> (AppError + CommandResponse) effect"
  where
  "executeCommandGifs p command =
     (let keywords = getCommandKeywords command triggerGifs
      in case config p of
           None \<Rightarrow> \<lparr>result = Panicked, calls = [], state = p\<rparr>
         | Some cfg \<Rightarrow>
             (case gifProvider p of
                None \<Rightarrow> \<lparr>result = Panicked, calls = [], state = p\<rparr>
              | Some provider \<Rightarrow>
                  (case getMultipleGifsURL provider cfg keywords of
                     Inl err \<Rightarrow>
                       \<lparr>result = Returned (Inl (appError ''Unable to get GIF URL'' (Some err))),
                        calls = [CallGetMultipleGifsURL cfg keywords], state = p\<rparr>
                   | Inr gifURLs \<Rightarrow>
                       (let text = gifsLoop keywords 0 gifURLs (suggestionsHeader keywords)
                        in \<lparr>result = Returned (Inr
                               \<lparr>ResponseType = COMMAND_RESPONSE_TYPE_EPHEMERAL, Text = text\<rparr>),
                            calls = [CallGetMultipleGifsURL cfg keywords], state = p\<rparr>))))"

text \<open>
  ExecuteCommand takes a pointer to the arguments; it is dereferenced (a panic when nil)
  only after the two readiness checks.
\<close>

definition ExecuteCommand ::
  "GiphyPlugin \<Rightarrow> CommandArgs option \<Rightarrow> (AppError + CommandResponse) effect" where
  "ExecuteCommand p args =
     (if \<not> enabled p then
        \<lparr>result = Returned (Inl
           (appError ''Cannot execute command while the plugin is disabled.'' None)),
         calls = [], state = p\<rparr>
      else if api p = None then
        \<lparr>result = Returned (Inl (appError ''Cannot access the plugin API.'' None)),
         calls = [], state = p\<rparr>
      else case args of
        None \<Rightarrow> \<lparr>result = Panicked, calls = [], state = p\<rparr>
      | Some a \<Rightarrow>
          if HasPrefix (Command a) (''/'' @ triggerGifs) then
            executeCommandGifs p (Command a)
          else if HasPrefix (Command a) (''/'' @ triggerGif) then
            executeCommandGif p (Command a)
          else
            \<lparr>result = Returned (Inl
               (appError (''Command trigger '' @ Command a
                            @ ''is not supported by this plugin.'') None)),
             calls = [], state = p\<rparr>)"

subsection \<open>Templates as sequences of pieces\<close>

text \<open>
  To state what the template substitution does, a template is read as a sequence of
  pieces: literal text and occurrences of the three placeholder tokens.
\<close>

datatype placeholder = KEYWORDS | GIF_URL | VIA_GIPHY_TOKEN

datatype piece = Lit string | Tok placeholder

fun token :: "placeholder \<Rightarrow> string" where
  "token KEYWORDS = ''##KEYWORDS##''"
| "token GIF_URL = ''##GIF_URL##''"
| "token VIA_GIPHY_TOKEN = ''##VIA_GIPHY##''"

fun substitute :: "string \<Rightarrow> string \<Rightarrow> placeholder \<Rightarrow> string" where
  "substitute keywords gifURL KEYWORDS = keywords"
| "substitute keywords gifURL GIF_URL = gifURL"
| "substitute keywords gifURL VIA_GIPHY_TOKEN = VIA_GIPHY"

text \<open>The template a sequence of pieces spells, and the text expected for it.\<close>

fun render :: "piece list \<Rightarrow> string" where
  "render [] = []"
| "render (Lit l # ps) = l @ render ps"
| "render (Tok t # ps) = token t @ render ps"

fun expand :: "string \<Rightarrow> string \<Rightarrow> piece list \<Rightarrow> string" where
  "expand keywords gifURL [] = []"
| "expand keywords gifURL (Lit l # ps) = l @ expand keywords gifURL ps"
| "expand keywords gifURL (Tok t # ps) = substitute keywords gifURL t @ expand keywords gifURL ps"

text \<open>
  A placeholder token starts at the head of \<open>s\<close>; a literal followed by \<open>rest\<close> is
  plain when no token starts at any of its positions; a sequence of pieces is a reading
  of its template when each of its literals is plain in front of what follows it.
\<close>

definition token_at :: "string \<Rightarrow> bool" where
  "token_at s = (HasPrefix s (token KEYWORDS) \<or> HasPrefix s (token GIF_URL)
                   \<or> HasPrefix s (token VIA_GIPHY_TOKEN))"

fun plain :: "string \<Rightarrow> string \<Rightarrow> bool" where
  "plain [] rest = True"
| "plain (c # l) rest = (\<not> token_at (c # l @ rest) \<and> plain l rest)"

fun reading :: "piece list \<Rightarrow> bool" where
  "reading [] = True"
| "reading (Lit l # ps) = (plain l (render ps) \<and> reading ps)"
| "reading (Tok t # ps) = reading ps"

subsection \<open>The trigger of a command line, as the glossary of the specification has it\<close>

text \<open>
  The specification calls trigger the leading token of a slash command: the text
  between the slash and the first space. The plugin never computes it (it compares
  prefixes); the definition serves to compare the two.
\<close>

definition spec_trigger :: "string \<Rightarrow> string" where
  "spec_trigger commandLine =
     takeWhile (\<lambda>c. c \<noteq> CHR '' '')
       (if HasPrefix commandLine ''/'' then drop 1 commandLine else commandLine)"

subsection \<open>Example values\<close>

definition example_configuration :: GiphyPluginConfiguration where
  "example_configuration =
     \<lparr>Rating = ''g'', Language = ''en'', Rendition = ''fixed_height_small'',
      ResponseTemplate = ''**##KEYWORDS##** ##GIF_URL## ##VIA_GIPHY##'', APIKey = ''k''\<rparr>"

definition example_provider :: gifProvider where
  "example_provider =
     \<lparr>getGifURL = (\<lambda>cfg keywords. Inr ''http://x/y.gif''),
      getMultipleGifsURL = (\<lambda>cfg keywords. Inr [''http://x/1.gif'', ''http://x/2.gif''])\<rparr>"

definition failing_provider :: gifProvider where
  "failing_provider =
     \<lparr>getGifURL = (\<lambda>cfg keywords. Inl ''timeout''),
      getMultipleGifsURL = (\<lambda>cfg keywords. Inl ''timeout'')\<rparr>"

definition example_API :: API where
  "example_API =
     \<lparr>RegisterCommand = (\<lambda>command. None),
      LoadPluginConfiguration = (\<lambda>dest. (example_configuration, None))\<rparr>"

text \<open>A host whose configuration load fails and leaves the struct as it was passed.\<close>

definition failing_API :: API where
  "failing_API =
     \<lparr>RegisterCommand = (\<lambda>command. None),
      LoadPluginConfiguration = (\<lambda>dest. (dest, Some ''cannot unmarshal''))\<rparr>"

definition example_plugin :: GiphyPlugin where
  "example_plugin =
     \<lparr>api = Some example_API, configuration = Some example_configuration,
      gifProvider = Some example_provider, enabled = True\<rparr>"

section \<open>Auxiliary facts\<close>

subsection \<open>Prefixes and dispatch\<close>

lemma HasPrefix_iff_prefix: "HasPrefix s pre \<longleftrightarrow> prefix pre s"
proof
  assume "HasPrefix s pre"
  then have "s = pre @ drop (length pre) s"
    unfolding HasPrefix_def by (metis append_take_drop_id)
  then show "prefix pre s"
    by (metis prefixI)
next
  assume "prefix pre s"
  then obtain zs where "s = pre @ zs"
    by (auto simp: prefix_def)
  then show "HasPrefix s pre"
    by (simp add: HasPrefix_def)
qed

lemma HasPrefix_gif_of_gifs:
  "HasPrefix s (''/'' @ triggerGifs) \<Longrightarrow> HasPrefix s (''/'' @ triggerGif)"
proof -
  assume "HasPrefix s (''/'' @ triggerGifs)"
  moreover have "prefix (''/'' @ triggerGif) (''/'' @ triggerGifs)"
    by (simp add: triggerGif_def triggerGifs_def)
  ultimately show ?thesis
    unfolding HasPrefix_iff_prefix by (rule_tac prefix_order.trans)
qed

lemma ExecuteCommand_dispatch:
  assumes "enabled p" and "api p \<noteq> None"
  shows "ExecuteCommand p (Some a) =
     (if HasPrefix (Command a) (''/'' @ triggerGifs) then executeCommandGifs p (Command a)
      else if HasPrefix (Command a) (''/'' @ triggerGif) then executeCommandGif p (Command a)
      else \<lparr>result = Returned (Inl
              \<lparr>Where = ''Giphy Plugin'',
               ErrorId = ''Command trigger '' @ Command a @ ''is not supported by this plugin.'',
               Message = ''Command trigger '' @ Command a @ ''is not supported by this plugin.'',
               DetailedError = [], StatusCode = 400\<rparr>),
            calls = [], state = p\<rparr>)"
  using assms
  by (auto simp add: ExecuteCommand_def appError_def NewAppError_def StatusBadRequest_def)

subsection \<open>The two handlers\<close>

lemma executeCommandGif_success:
  assumes "configuration p = Some cfg" and "gifProvider p = Some provider"
    and "getGifURL provider cfg (getCommandKeywords command triggerGif) = Inr gifURL"
  shows "executeCommandGif p command =
     \<lparr>result = Returned (Inr
        \<lparr>ResponseType = COMMAND_RESPONSE_TYPE_IN_CHANNEL,
         Text = applyResponseTemplate (ResponseTemplate cfg)
                  (getCommandKeywords command triggerGif) gifURL\<rparr>),
      calls = [CallGetGifURL cfg (getCommandKeywords command triggerGif)], state = p\<rparr>"
  using assms by (simp add: executeCommandGif_def config_def Let_def)

lemma executeCommandGifs_success:
  assumes "configuration p = Some cfg" and "gifProvider p = Some provider"
    and "getMultipleGifsURL provider cfg (getCommandKeywords command triggerGifs) = Inr gifURLs"
  shows "executeCommandGifs p command =
     \<lparr>result = Returned (Inr
        \<lparr>ResponseType = COMMAND_RESPONSE_TYPE_EPHEMERAL,
         Text = gifsLoop (getCommandKeywords command triggerGifs) 0 gifURLs
                  (suggestionsHeader (getCommandKeywords command triggerGifs))\<rparr>),
      calls = [CallGetMultipleGifsURL cfg (getCommandKeywords command triggerGifs)], state = p\<rparr>"
  using assms by (simp add: executeCommandGifs_def config_def Let_def)

lemma executeCommandGif_failure:
  assumes "configuration p = Some cfg" and "gifProvider p = Some provider"
    and "getGifURL provider cfg (getCommandKeywords command triggerGif) = Inl err"
  shows "executeCommandGif p command =
     \<lparr>result = Returned (Inl
        \<lparr>Where = ''Giphy Plugin'', ErrorId = ''Unable to get GIF URL'',
         Message = ''Unable to get GIF URL'', DetailedError = err, StatusCode = 400\<rparr>),
      calls = [CallGetGifURL cfg (getCommandKeywords command triggerGif)], state = p\<rparr>"
  using assms
  by (simp add: executeCommandGif_def config_def Let_def appError_def NewAppError_def
      StatusBadRequest_def)

lemma executeCommandGifs_failure:
  assumes "configuration p = Some cfg" and "gifProvider p = Some provider"
    and "getMultipleGifsURL provider cfg (getCommandKeywords command triggerGifs) = Inl err"
  shows "executeCommandGifs p command =
     \<lparr>result = Returned (Inl
        \<lparr>Where = ''Giphy Plugin'', ErrorId = ''Unable to get GIF URL'',
         Message = ''Unable to get GIF URL'', DetailedError = err, StatusCode = 400\<rparr>),
      calls = [CallGetMultipleGifsURL cfg (getCommandKeywords command triggerGifs)], state = p\<rparr>"
  using assms
  by (simp add: executeCommandGifs_def config_def Let_def appError_def NewAppError_def
      StatusBadRequest_def)

lemma executeCommandGif_error:
  assumes "result (executeCommandGif p command) = Returned (Inl e)"
  shows "\<exists>cfg provider err.
      configuration p = Some cfg \<and> gifProvider p = Some provider
      \<and> getGifURL provider cfg (getCommandKeywords command triggerGif) = Inl err"
  using assms
  by (auto simp add: executeCommandGif_def config_def Let_def
      split: option.splits sum.splits)

lemma executeCommandGifs_error:
  assumes "result (executeCommandGifs p command) = Returned (Inl e)"
  shows "\<exists>cfg provider err.
      configuration p = Some cfg \<and> gifProvider p = Some provider
      \<and> getMultipleGifsURL provider cfg (getCommandKeywords command triggerGifs) = Inl err"
  using assms
  by (auto simp add: executeCommandGifs_def config_def Let_def
      split: option.splits sum.splits)

lemma executeCommandGif_calls:
  assumes "configuration p = Some cfg" and "gifProvider p = Some provider"
  shows "calls (executeCommandGif p command) =
     [CallGetGifURL cfg (getCommandKeywords command triggerGif)]"
  using assms by (simp add: executeCommandGif_def config_def Let_def split: sum.split)

lemma executeCommandGifs_calls:
  assumes "configuration p = Some cfg" and "gifProvider p = Some provider"
  shows "calls (executeCommandGifs p command) =
     [CallGetMultipleGifsURL cfg (getCommandKeywords command triggerGifs)]"
  using assms by (simp add: executeCommandGifs_def config_def Let_def split: sum.split)

subsection \<open>Trim, Replace and the loop of executeCommandGifs\<close>

lemma Trim_decompose:
  "\<exists>a b. s = a @ Trim s cutset @ b \<and> set a \<subseteq> set cutset \<and> set b \<subseteq> set cutset"
proof -
  let ?P = "\<lambda>c. c \<in> set cutset"
  let ?r = "TrimRight s cutset"
  have right: "s = ?r @ rev (takeWhile ?P (rev s))"
  proof -
    have "s = rev (takeWhile ?P (rev s) @ dropWhile ?P (rev s))"
      by (simp only: takeWhile_dropWhile_id rev_rev_ident)
    then show ?thesis
      by (simp only: rev_append TrimRight_def)
  qed
  have left: "?r = takeWhile ?P ?r @ Trim s cutset"
    by (simp add: Trim_def TrimLeft_def)
  have "s = takeWhile ?P ?r @ Trim s cutset @ rev (takeWhile ?P (rev s))"
    using right left by (metis append.assoc)
  moreover have "set (takeWhile ?P ?r) \<subseteq> set cutset"
    by (auto dest: set_takeWhileD)
  moreover have "set (rev (takeWhile ?P (rev s))) \<subseteq> set cutset"
    by (auto dest: set_takeWhileD)
  ultimately show ?thesis
    by blast
qed

lemma Trim_ends:
  assumes "Trim s cutset \<noteq> []"
  shows "hd (Trim s cutset) \<notin> set cutset \<and> last (Trim s cutset) \<notin> set cutset"
proof -
  let ?P = "\<lambda>c. c \<in> set cutset"
  let ?r = "TrimRight s cutset"
  have t: "Trim s cutset = dropWhile ?P ?r"
    by (simp add: Trim_def TrimLeft_def)
  with assms have "\<not> ?P (hd (Trim s cutset))"
    using hd_dropWhile [of ?P ?r] by simp
  moreover have "last (Trim s cutset) \<notin> set cutset"
  proof -
    from assms t have rne: "?r \<noteq> []"
      by auto
    then have d: "dropWhile ?P (rev s) \<noteq> []"
      by (simp add: TrimRight_def)
    have "last ?r = hd (dropWhile ?P (rev s))"
      using d by (simp add: TrimRight_def last_rev)
    then have "last ?r \<notin> set cutset"
      using hd_dropWhile [OF d] by simp
    moreover have "last (dropWhile ?P ?r) = last ?r"
      using assms t by (metis append_Nil2 last_appendR takeWhile_dropWhile_id)
    ultimately show ?thesis
      using t by simp
  qed
  ultimately show ?thesis
    by simp
qed

lemma Replace_leading:
  "old \<noteq> [] \<Longrightarrow> Replace (old @ rest) old new (Suc 0) = new @ rest"
  by (cases old) (simp_all add: HasPrefix_def)

lemma getCommandKeywords_leading:
  "getCommandKeywords (''/'' @ trigger @ rest) trigger = Trim rest '' ''"
  using Replace_leading [of "''/'' @ trigger" rest "[]"]
  by (simp add: getCommandKeywords_def)

lemma getCommandKeywords_example:
  "getCommandKeywords ''/gifs   happy kitty '' ''gifs'' = ''happy kitty''"
  by (simp add: getCommandKeywords_def HasPrefix_def Trim_def TrimLeft_def TrimRight_def)

lemma gifsLoop_later:
  "0 < i \<Longrightarrow> gifsLoop keywords i gifURLs body =
     body @ concat (map (\<lambda>url. CHR 0x09 # gifLink keywords url) gifURLs)"
  by (induction gifURLs arbitrary: i body) simp_all

lemma gifsLoop_first:
  "gifsLoop keywords 0 (url # gifURLs) body =
     body @ gifLink keywords url
       @ concat (map (\<lambda>url. CHR 0x09 # gifLink keywords url) gifURLs)"
  by (simp add: gifsLoop_later)

lemma gifsLoop_last:
  "gifURLs \<noteq> [] \<Longrightarrow> last (gifsLoop keywords i gifURLs body) = CHR '')''"
proof (induction gifURLs arbitrary: i body)
  case Nil
  then show ?case by simp
next
  case (Cons url gifURLs)
  note IH = Cons.IH
  show ?case
  proof (cases "gifURLs = []")
    case True
    then show ?thesis
      by (simp add: gifLink_def)
  next
    case False
    show ?thesis
      unfolding gifsLoop.simps(2) by (rule IH [OF False])
  qed
qed

subsection \<open>The replacer on the three placeholders\<close>

lemma lookup_placeholders_token:
  "lookup (placeholders keywords gifURL) (token t @ rest) =
     Some (token t, substitute keywords gifURL t)"
  by (cases t) (simp_all add: placeholders_def HasPrefix_def)

lemma lookup_placeholders_None:
  "\<not> token_at s \<Longrightarrow> lookup (placeholders keywords gifURL) s = None"
  by (simp add: placeholders_def token_at_def)

lemma token_nonempty: "\<exists>c cs. token t = c # cs"
  by (cases t) simp_all

lemma applyResponseTemplate_token:
  "applyResponseTemplate (token t @ rest) keywords gifURL =
     substitute keywords gifURL t @ applyResponseTemplate rest keywords gifURL"
proof -
  obtain c cs where tok: "token t = c # cs"
    using token_nonempty by blast
  have "Replacer_Replace (placeholders keywords gifURL) (c # cs @ rest) =
      substitute keywords gifURL t
        @ Replacer_Replace (placeholders keywords gifURL) (drop (length (token t)) (c # cs @ rest))"
    using lookup_placeholders_token [of "keywords" gifURL t rest]
    by (simp add: tok)
  moreover have "drop (length (token t)) (c # cs @ rest) = rest"
    by (simp add: tok)
  ultimately show ?thesis
    by (simp add: applyResponseTemplate_def tok)
qed

lemma applyResponseTemplate_plain:
  "plain l rest \<Longrightarrow>
     applyResponseTemplate (l @ rest) keywords gifURL =
       l @ applyResponseTemplate rest keywords gifURL"
  by (induction l) (simp_all add: applyResponseTemplate_def lookup_placeholders_None)

lemma applyResponseTemplate_reading:
  "reading ps \<Longrightarrow>
     applyResponseTemplate (render ps) keywords gifURL = expand keywords gifURL ps"
proof (induction ps rule: render.induct)
  case 1
  then show ?case
    by (simp add: applyResponseTemplate_def)
next
  case (2 l ps)
  then show ?case
    by (simp add: applyResponseTemplate_plain)
next
  case (3 t ps)
  then show ?case
    by (simp add: applyResponseTemplate_token)
qed

lemma token_at_split:
  assumes "token_at s"
  shows "\<exists>t rest. s = token t @ rest"
proof -
  from assms obtain t where "HasPrefix s (token t)"
    unfolding token_at_def by blast
  then have "s = token t @ drop (length (token t)) s"
    unfolding HasPrefix_def by (metis append_take_drop_id)
  then show ?thesis
    by blast
qed

lemma reading_exists: "\<exists>ps. render ps = template \<and> reading ps"
proof (induction "length template" arbitrary: template rule: less_induct)
  case less
  show ?case
  proof (cases template)
    case Nil
    have "render [] = [] \<and> reading []"
      by simp
    with Nil show ?thesis
      by blast
  next
    case (Cons c cs)
    show ?thesis
    proof (cases "token_at template")
      case True
      then obtain t rest where split: "template = token t @ rest"
        using token_at_split by blast
      moreover obtain d ds where "token t = d # ds"
        using token_nonempty by blast
      ultimately have "length rest < length template"
        by simp
      then obtain ps where "render ps = rest" and "reading ps"
        using less by blast
      then have "render (Tok t # ps) = template \<and> reading (Tok t # ps)"
        using split by simp
      then show ?thesis
        by blast
    next
      case False
      have "length cs < length template"
        using Cons by simp
      then obtain ps where "render ps = cs" and "reading ps"
        using less by blast
      then have "render (Lit [c] # ps) = template \<and> reading (Lit [c] # ps)"
        using Cons False by simp
      then show ?thesis
        by blast
    qed
  qed
qed

lemma plain_no_hash: "CHR ''#'' \<notin> set l \<Longrightarrow> plain l rest"
  by (induction l) (auto simp add: token_at_def HasPrefix_def)

lemma reading_no_hash:
  "(\<forall>l. Lit l \<in> set ps \<longrightarrow> CHR ''#'' \<notin> set l) \<Longrightarrow> reading ps"
  by (induction ps rule: reading.induct) (simp_all add: plain_no_hash)

subsection \<open>The errors of ExecuteCommand\<close>

lemma ExecuteCommand_error_shape:
  assumes "result (ExecuteCommand p args) = Returned (Inl e)"
  shows "StatusCode e = 400 \<and> Where e = ''Giphy Plugin'' \<and> Message e \<noteq> []
    \<and> length (calls (ExecuteCommand p args)) \<le> 1
    \<and> ((Message e = ''Cannot execute command while the plugin is disabled.''
          \<and> calls (ExecuteCommand p args) = [])
       \<or> (Message e = ''Cannot access the plugin API.''
          \<and> calls (ExecuteCommand p args) = [])
       \<or> (\<exists>a. args = Some a
          \<and> Message e = ''Command trigger '' @ Command a @ ''is not supported by this plugin.''
          \<and> calls (ExecuteCommand p args) = [])
       \<or> (\<exists>cfg provider keywords.
            configuration p = Some cfg \<and> gifProvider p = Some provider
          \<and> Message e = ''Unable to get GIF URL''
          \<and> ((getGifURL provider cfg keywords = Inl (DetailedError e)
                \<and> calls (ExecuteCommand p args) = [CallGetGifURL cfg keywords])
             \<or> (getMultipleGifsURL provider cfg keywords = Inl (DetailedError e)
                \<and> calls (ExecuteCommand p args) = [CallGetMultipleGifsURL cfg keywords]))))"
proof (cases "enabled p \<and> api p \<noteq> None")
  case False
  with assms show ?thesis
    by (auto simp add: ExecuteCommand_def appError_def NewAppError_def StatusBadRequest_def
        split: if_splits)
next
  case ready: True
  show ?thesis
  proof (cases args)
    case None
    with assms ready show ?thesis
      by (auto simp add: ExecuteCommand_def)
  next
    case (Some a)
    note dispatch = ExecuteCommand_dispatch [of p a] ready
    consider (gifs) "HasPrefix (Command a) (''/'' @ triggerGifs)"
      | (gif) "\<not> HasPrefix (Command a) (''/'' @ triggerGifs)"
          "HasPrefix (Command a) (''/'' @ triggerGif)"
      | (other) "\<not> HasPrefix (Command a) (''/'' @ triggerGifs)"
          "\<not> HasPrefix (Command a) (''/'' @ triggerGif)"
      by blast
    then show ?thesis
    proof cases
      case gifs
      then have eq: "ExecuteCommand p args = executeCommandGifs p (Command a)"
        using dispatch Some by simp
      with assms obtain cfg provider err where
        h: "configuration p = Some cfg" "gifProvider p = Some provider"
          "getMultipleGifsURL provider cfg (getCommandKeywords (Command a) triggerGifs) = Inl err"
        using executeCommandGifs_error [of p "Command a" e] by auto
      show ?thesis
        using assms h unfolding eq executeCommandGifs_failure [OF h]
        by auto
    next
      case gif
      then have eq: "ExecuteCommand p args = executeCommandGif p (Command a)"
        using dispatch Some by simp
      with assms obtain cfg provider err where
        h: "configuration p = Some cfg" "gifProvider p = Some provider"
          "getGifURL provider cfg (getCommandKeywords (Command a) triggerGif) = Inl err"
        using executeCommandGif_error [of p "Command a" e] by auto
      show ?thesis
        using assms h unfolding eq executeCommandGif_failure [OF h]
        by auto
    next
      case other
      then show ?thesis
        using assms dispatch Some by auto
    qed
  qed
qed

section \<open>The claims\<close>

text \<open>
  C1, as amended. The claim as stated fails twice over: a command line whose leading
  token is not a known trigger but that begins with \<open>/gif\<close> (such as \<open>/gift bar\<close>) is
  handed to the single-GIF handler, since the triggers are matched as prefixes of the
  command line; and a plugin that is disabled answers with the not-ready error
  whatever the trigger. What holds: on an enabled plugin with an API handle, every
  command line that does not begin with \<open>/gif\<close> gets the unsupported-command error,
  and the provider is not called.
\<close>

theorem ExecuteCommand_unsupported_trigger:
  assumes "enabled p" and "api p \<noteq> None"
    and "\<not> HasPrefix (Command a) (''/'' @ triggerGif)"
  shows "ExecuteCommand p (Some a) =
     \<lparr>result = Returned (Inl
        \<lparr>Where = ''Giphy Plugin'',
         ErrorId = ''Command trigger '' @ Command a @ ''is not supported by this plugin.'',
         Message = ''Command trigger '' @ Command a @ ''is not supported by this plugin.'',
         DetailedError = [], StatusCode = 400\<rparr>),
      calls = [], state = p\<rparr>"
proof -
  from assms(3) have "\<not> HasPrefix (Command a) (''/'' @ triggerGifs)"
    using HasPrefix_gif_of_gifs by blast
  with assms show ?thesis
    by (simp add: ExecuteCommand_dispatch)
qed

theorem ExecuteCommand_unsupported_trigger_witness:
  "enabled example_plugin \<and> api example_plugin \<noteq> None
   \<and> \<not> HasPrefix (Command \<lparr>Command = ''/foo bar''\<rparr>) (''/'' @ triggerGif)
   \<and> ExecuteCommand example_plugin (Some \<lparr>Command = ''/foo bar''\<rparr>) =
     \<lparr>result = Returned (Inl
        \<lparr>Where = ''Giphy Plugin'',
         ErrorId = ''Command trigger /foo baris not supported by this plugin.'',
         Message = ''Command trigger /foo baris not supported by this plugin.'',
         DetailedError = [], StatusCode = 400\<rparr>),
      calls = [], state = example_plugin\<rparr>"
  using ExecuteCommand_unsupported_trigger [of example_plugin "\<lparr>Command = ''/foo bar''\<rparr>"]
  by (simp add: example_plugin_def HasPrefix_def triggerGif_def)

theorem ExecuteCommand_unsupported_trigger_counterexample:
  "spec_trigger ''/gift bar'' = ''gift''
   \<and> ''gift'' \<noteq> triggerGif \<and> ''gift'' \<noteq> triggerGifs
   \<and> ExecuteCommand example_plugin (Some \<lparr>Command = ''/gift bar''\<rparr>) =
       \<lparr>result = Returned (Inr
          \<lparr>ResponseType = ''in_channel'',
           Text = ''**t bar** http://x/y.gif via ![giphy](https://giphy.com/static/img/favicon.png)''\<rparr>),
        calls = [CallGetGifURL example_configuration ''t bar''],
        state = example_plugin\<rparr>
   \<and> spec_trigger ''/foo bar'' = ''foo''
   \<and> ''foo'' \<noteq> triggerGif \<and> ''foo'' \<noteq> triggerGifs
   \<and> ExecuteCommand (example_plugin\<lparr>enabled := False\<rparr>) (Some \<lparr>Command = ''/foo bar''\<rparr>) =
       \<lparr>result = Returned (Inl
          \<lparr>Where = ''Giphy Plugin'',
           ErrorId = ''Cannot execute command while the plugin is disabled.'',
           Message = ''Cannot execute command while the plugin is disabled.'',
           DetailedError = [], StatusCode = 400\<rparr>),
        calls = [], state = example_plugin\<lparr>enabled := False\<rparr>\<rparr>"
  by (simp add: spec_trigger_def HasPrefix_def triggerGif_def triggerGifs_def
      ExecuteCommand_def executeCommandGif_def config_def example_plugin_def
      example_provider_def example_configuration_def getCommandKeywords_def
      Trim_def TrimLeft_def TrimRight_def applyResponseTemplate_def placeholders_def
      VIA_GIPHY_def COMMAND_RESPONSE_TYPE_IN_CHANNEL_def appError_def NewAppError_def
      StatusBadRequest_def)

text \<open>
  C2. From a command line that begins with \<open>/\<close> and the trigger, getCommandKeywords
  removes that one leading occurrence (a later occurrence in the rest stays) and trims
  the spaces around what is left: only spaces are cut, and the keywords neither start
  nor end with one. The example of the specification evaluates as it says. For every
  command line, what ExecuteCommand passes to the provider is the line without its
  leading trigger, trimmed, with no validation, also when it is empty.
\<close>

theorem getCommandKeywords_strips_trigger:
  "getCommandKeywords (''/'' @ trigger @ rest) trigger = Trim rest '' ''
   \<and> (\<exists>a b. rest = a @ Trim rest '' '' @ b
          \<and> set a \<subseteq> {CHR '' ''} \<and> set b \<subseteq> {CHR '' ''})
   \<and> (Trim rest '' '' \<noteq> [] \<longrightarrow>
        hd (Trim rest '' '') \<noteq> CHR '' '' \<and> last (Trim rest '' '') \<noteq> CHR '' '')
   \<and> getCommandKeywords ''/gifs   happy kitty '' ''gifs'' = ''happy kitty''
   \<and> (enabled p \<and> api p \<noteq> None \<and> configuration p = Some cfg
        \<and> gifProvider p = Some provider \<longrightarrow>
        calls (ExecuteCommand p (Some \<lparr>Command = commandLine\<rparr>)) =
          (if HasPrefix commandLine ''/gifs''
           then [CallGetMultipleGifsURL cfg (Trim (drop 5 commandLine) '' '')]
           else if HasPrefix commandLine ''/gif''
           then [CallGetGifURL cfg (Trim (drop 4 commandLine) '' '')]
           else []))"
proof -
  have leading: "getCommandKeywords (''/'' @ t @ r) t = Trim r '' ''" for t r
    by (rule getCommandKeywords_leading)
  have cut: "\<exists>a b. rest = a @ Trim rest '' '' @ b
      \<and> set a \<subseteq> {CHR '' ''} \<and> set b \<subseteq> {CHR '' ''}"
    using Trim_decompose [of rest "'' ''"] by simp
  have ends: "Trim rest '' '' \<noteq> [] \<longrightarrow>
      hd (Trim rest '' '') \<noteq> CHR '' '' \<and> last (Trim rest '' '') \<noteq> CHR '' ''"
    using Trim_ends [of rest "'' ''"] by simp
  have passed: "calls (ExecuteCommand p (Some \<lparr>Command = commandLine\<rparr>)) =
          (if HasPrefix commandLine ''/gifs''
           then [CallGetMultipleGifsURL cfg (Trim (drop 5 commandLine) '' '')]
           else if HasPrefix commandLine ''/gif''
           then [CallGetGifURL cfg (Trim (drop 4 commandLine) '' '')]
           else [])"
    if ready: "enabled p" "api p \<noteq> None"
      and cfg: "configuration p = Some cfg" and prov: "gifProvider p = Some provider"
  proof -
    note dispatch = ExecuteCommand_dispatch [OF ready, of "\<lparr>Command = commandLine\<rparr>"]
    consider (gifs) "HasPrefix commandLine ''/gifs''"
      | (gif) "\<not> HasPrefix commandLine ''/gifs''" "HasPrefix commandLine ''/gif''"
      | (other) "\<not> HasPrefix commandLine ''/gifs''" "\<not> HasPrefix commandLine ''/gif''"
      by blast
    then show ?thesis
    proof cases
      case gifs
      have len: "length ''/gifs'' = 5"
        by simp
      have "commandLine = ''/gifs'' @ drop (length ''/gifs'') commandLine"
        using gifs unfolding HasPrefix_def by (metis append_take_drop_id)
      then have "''/'' @ ''gifs'' @ drop 5 commandLine = commandLine"
        unfolding len by simp
      then have "getCommandKeywords commandLine triggerGifs = Trim (drop 5 commandLine) '' ''"
        using leading [of "''gifs''" "drop 5 commandLine"] by (simp add: triggerGifs_def)
      then show ?thesis
        using gifs dispatch executeCommandGifs_calls [OF cfg prov, of commandLine]
        by (simp add: triggerGifs_def)
    next
      case gif
      have len: "length ''/gif'' = 4"
        by simp
      have "commandLine = ''/gif'' @ drop (length ''/gif'') commandLine"
        using gif(2) unfolding HasPrefix_def by (metis append_take_drop_id)
      then have "''/'' @ ''gif'' @ drop 4 commandLine = commandLine"
        unfolding len by simp
      then have "getCommandKeywords commandLine triggerGif = Trim (drop 4 commandLine) '' ''"
        using leading [of "''gif''" "drop 4 commandLine"] by (simp add: triggerGif_def)
      then show ?thesis
        using gif dispatch executeCommandGif_calls [OF cfg prov, of commandLine]
        by (simp add: triggerGif_def triggerGifs_def)
    next
      case other
      then show ?thesis
        using dispatch by (simp add: triggerGif_def triggerGifs_def)
    qed
  qed
  from leading [of trigger rest] cut ends getCommandKeywords_example passed show ?thesis
    by blast
qed

theorem getCommandKeywords_strips_trigger_witness:
  "getCommandKeywords ''/gifs /gifs kitty '' ''gifs'' = ''/gifs kitty''
   \<and> Trim '' /gifs kitty '' '' '' \<noteq> []
   \<and> hd (Trim '' /gifs kitty '' '' '') \<noteq> CHR '' ''
   \<and> last (Trim '' /gifs kitty '' '' '') \<noteq> CHR '' ''
   \<and> enabled example_plugin \<and> api example_plugin \<noteq> None
   \<and> configuration example_plugin = Some example_configuration
   \<and> gifProvider example_plugin = Some example_provider
   \<and> calls (ExecuteCommand example_plugin (Some \<lparr>Command = ''/gif  happy kitty ''\<rparr>)) =
        [CallGetGifURL example_configuration ''happy kitty'']
   \<and> calls (ExecuteCommand example_plugin (Some \<lparr>Command = ''/gifs''\<rparr>)) =
        [CallGetMultipleGifsURL example_configuration []]"
  using getCommandKeywords_strips_trigger
      [of "''gifs''" "'' /gifs kitty ''" example_plugin example_configuration example_provider
        "''/gif  happy kitty ''"]
    getCommandKeywords_strips_trigger
      [of "''gifs''" "[]" example_plugin example_configuration example_provider "''/gifs''"]
  by (simp add: example_plugin_def HasPrefix_def Trim_def TrimLeft_def TrimRight_def)

text \<open>
  C3. Every template can be read as a sequence of literal texts and placeholder tokens,
  and for every such reading, whatever the order of its pieces, applyResponseTemplate
  returns the same sequence with each token replaced, once, by its value (the keywords,
  the URL, the fixed attribution) and each literal text unchanged. The values are not
  scanned again. Any sequence whose literal texts contain no \<open>#\<close> is a reading.
\<close>

theorem applyResponseTemplate_pieces:
  "(\<exists>ps. render ps = template \<and> reading ps)
   \<and> (reading ps \<longrightarrow>
        applyResponseTemplate (render ps) keywords gifURL = expand keywords gifURL ps)
   \<and> ((\<forall>l. Lit l \<in> set ps \<longrightarrow> CHR ''#'' \<notin> set l) \<longrightarrow> reading ps)"
  using reading_exists [of template]
    applyResponseTemplate_reading [of ps "keywords" gifURL]
    reading_no_hash [of ps]
  by blast

theorem applyResponseTemplate_pieces_witness:
  "reading [Lit ''**'', Tok KEYWORDS, Lit ''** '', Tok GIF_URL, Lit '' '', Tok VIA_GIPHY_TOKEN]
   \<and> applyResponseTemplate ''**##KEYWORDS##** ##GIF_URL## ##VIA_GIPHY##''
         ''cat'' ''http://x/y.gif'' =
       ''**cat** http://x/y.gif via ![giphy](https://giphy.com/static/img/favicon.png)''
   \<and> reading [Tok VIA_GIPHY_TOKEN, Lit '': '', Tok GIF_URL, Lit '' ('', Tok KEYWORDS,
         Lit '', '', Tok KEYWORDS, Lit '')'']
   \<and> applyResponseTemplate ''##VIA_GIPHY##: ##GIF_URL## (##KEYWORDS##, ##KEYWORDS##)''
         ''cat'' ''http://x/y.gif'' =
       ''via ![giphy](https://giphy.com/static/img/favicon.png): http://x/y.gif (cat, cat)''"
  using applyResponseTemplate_pieces
      [of "[]" "[Lit ''**'', Tok KEYWORDS, Lit ''** '', Tok GIF_URL, Lit '' '', Tok VIA_GIPHY_TOKEN]"
        "''cat''" "''http://x/y.gif''"]
    applyResponseTemplate_pieces
      [of "[]" "[Tok VIA_GIPHY_TOKEN, Lit '': '', Tok GIF_URL, Lit '' ('', Tok KEYWORDS,
         Lit '', '', Tok KEYWORDS, Lit '')'']"
        "''cat''" "''http://x/y.gif''"]
  by (simp add: VIA_GIPHY_def)

text \<open>
  C4. When the provider returns a non-empty list of URLs, the text of the multi-GIF
  response is the header, the markdown image link of the first URL, and for each
  further URL, in order, one tab character and its link: one link per URL, one tab
  between two links, and a closing parenthesis, not a tab, at the end.
\<close>

theorem executeCommandGifs_text:
  assumes "configuration p = Some cfg" and "gifProvider p = Some provider"
    and "keywords = getCommandKeywords command triggerGifs"
    and "getMultipleGifsURL provider cfg keywords = Inr (url # gifURLs)"
  shows "result (executeCommandGifs p command) =
      Returned (Inr
        \<lparr>ResponseType = COMMAND_RESPONSE_TYPE_EPHEMERAL,
         Text = suggestionsHeader keywords @ gifLink keywords url
                  @ concat (map (\<lambda>u. CHR 0x09 # gifLink keywords u) gifURLs)\<rparr>)
    \<and> last (suggestionsHeader keywords @ gifLink keywords url
              @ concat (map (\<lambda>u. CHR 0x09 # gifLink keywords u) gifURLs)) = CHR '')''
    \<and> last (suggestionsHeader keywords @ gifLink keywords url
              @ concat (map (\<lambda>u. CHR 0x09 # gifLink keywords u) gifURLs)) \<noteq> CHR 0x09"
proof -
  let ?text = "suggestionsHeader keywords @ gifLink keywords url
                  @ concat (map (\<lambda>u. CHR 0x09 # gifLink keywords u) gifURLs)"
  have loop: "gifsLoop keywords 0 (url # gifURLs) (suggestionsHeader keywords) = ?text"
    by (rule gifsLoop_first)
  have "result (executeCommandGifs p command) =
      Returned (Inr \<lparr>ResponseType = COMMAND_RESPONSE_TYPE_EPHEMERAL, Text = ?text\<rparr>)"
    using executeCommandGifs_success [of p cfg provider command "url # gifURLs"] assms loop
    by simp
  moreover have "last ?text = CHR '')''"
    using gifsLoop_last [of "url # gifURLs" "keywords" 0 "suggestionsHeader keywords"] loop
    by simp
  ultimately show ?thesis
    by simp
qed

theorem executeCommandGifs_text_witness:
  "configuration example_plugin = Some example_configuration
   \<and> gifProvider example_plugin = Some example_provider
   \<and> ''cat'' = getCommandKeywords ''/gifs cat'' triggerGifs
   \<and> getMultipleGifsURL example_provider example_configuration ''cat'' =
       Inr [''http://x/1.gif'', ''http://x/2.gif'']
   \<and> result (executeCommandGifs example_plugin ''/gifs cat'') =
       Returned (Inr
         \<lparr>ResponseType = ''ephemeral'',
          Text = '' *Suggestions for '' @ [CHR 0x27] @ ''cat'' @ [CHR 0x27] @ '':*''
            @ ''[![GIF for '' @ [CHR 0x27] @ ''cat'' @ [CHR 0x27]
            @ ''](http://x/1.gif)](http://x/1.gif)'' @ [CHR 0x09]
            @ ''[![GIF for '' @ [CHR 0x27] @ ''cat'' @ [CHR 0x27]
            @ ''](http://x/2.gif)](http://x/2.gif)''\<rparr>)"
  using executeCommandGifs_text
      [of example_plugin example_configuration example_provider "''cat''" "''/gifs cat''"
        "''http://x/1.gif''" "[''http://x/2.gif'']"]
  by (simp add: example_plugin_def example_provider_def getCommandKeywords_def
      triggerGifs_def HasPrefix_def Trim_def TrimLeft_def TrimRight_def
      suggestionsHeader_def gifLink_def COMMAND_RESPONSE_TYPE_EPHEMERAL_def)

text \<open>
  C5. On an enabled plugin with an API handle, a stored configuration and a provider:
  when the command line begins with \<open>/gifs\<close> and getMultipleGifsURL succeeds, the
  response is ephemeral (private to the caller); when it begins with \<open>/gif\<close> but not
  with \<open>/gifs\<close> and getGifURL succeeds, the response is in-channel.
\<close>

theorem visibility_by_trigger:
  assumes "enabled p" and "api p \<noteq> None"
    and "configuration p = Some cfg" and "gifProvider p = Some provider"
  shows "(HasPrefix (Command a) (''/'' @ triggerGifs)
          \<and> getMultipleGifsURL provider cfg (getCommandKeywords (Command a) triggerGifs)
              = Inr gifURLs
          \<longrightarrow> result (ExecuteCommand p (Some a)) =
                Returned (Inr
                  \<lparr>ResponseType = ''ephemeral'',
                   Text = gifsLoop (getCommandKeywords (Command a) triggerGifs) 0 gifURLs
                            (suggestionsHeader (getCommandKeywords (Command a) triggerGifs))\<rparr>))
       \<and> (HasPrefix (Command a) (''/'' @ triggerGif)
          \<and> \<not> HasPrefix (Command a) (''/'' @ triggerGifs)
          \<and> getGifURL provider cfg (getCommandKeywords (Command a) triggerGif) = Inr gifURL
          \<longrightarrow> result (ExecuteCommand p (Some a)) =
                Returned (Inr
                  \<lparr>ResponseType = ''in_channel'',
                   Text = applyResponseTemplate (ResponseTemplate cfg)
                            (getCommandKeywords (Command a) triggerGif) gifURL\<rparr>))"
  using assms executeCommandGif_success [of p cfg provider "Command a" gifURL]
    executeCommandGifs_success [of p cfg provider "Command a" gifURLs]
  by (simp add: ExecuteCommand_dispatch COMMAND_RESPONSE_TYPE_EPHEMERAL_def
      COMMAND_RESPONSE_TYPE_IN_CHANNEL_def)

theorem visibility_by_trigger_witness:
  "enabled example_plugin \<and> api example_plugin \<noteq> None
   \<and> configuration example_plugin = Some example_configuration
   \<and> gifProvider example_plugin = Some example_provider
   \<and> HasPrefix ''/gifs cat'' (''/'' @ triggerGifs)
   \<and> getMultipleGifsURL example_provider example_configuration
         (getCommandKeywords ''/gifs cat'' triggerGifs) = Inr [''http://x/1.gif'', ''http://x/2.gif'']
   \<and> (\<exists>text. result (ExecuteCommand example_plugin (Some \<lparr>Command = ''/gifs cat''\<rparr>)) =
         Returned (Inr \<lparr>ResponseType = ''ephemeral'', Text = text\<rparr>))
   \<and> HasPrefix ''/gif cat'' (''/'' @ triggerGif)
   \<and> \<not> HasPrefix ''/gif cat'' (''/'' @ triggerGifs)
   \<and> getGifURL example_provider example_configuration
         (getCommandKeywords ''/gif cat'' triggerGif) = Inr ''http://x/y.gif''
   \<and> result (ExecuteCommand example_plugin (Some \<lparr>Command = ''/gif cat''\<rparr>)) =
         Returned (Inr
           \<lparr>ResponseType = ''in_channel'',
            Text = ''**cat** http://x/y.gif via ![giphy](https://giphy.com/static/img/favicon.png)''\<rparr>)"
  using visibility_by_trigger
      [of example_plugin example_configuration example_provider "\<lparr>Command = ''/gifs cat''\<rparr>"
        "[''http://x/1.gif'', ''http://x/2.gif'']" "[]"]
    visibility_by_trigger
      [of example_plugin example_configuration example_provider "\<lparr>Command = ''/gif cat''\<rparr>"
        "[]" "''http://x/y.gif''"]
  by (simp add: example_plugin_def example_provider_def example_configuration_def
      HasPrefix_def triggerGif_def triggerGifs_def getCommandKeywords_def
      Trim_def TrimLeft_def TrimRight_def applyResponseTemplate_def placeholders_def
      VIA_GIPHY_def)

text \<open>
  C6. A plugin that is disabled answers every invocation, whatever its arguments, with
  the error "Cannot execute command while the plugin is disabled."; an enabled plugin
  without API handle answers every invocation with "Cannot access the plugin API.".
  In both cases the provider is not called.
\<close>

theorem ExecuteCommand_not_ready:
  "(\<not> enabled p \<longrightarrow>
      ExecuteCommand p args =
        \<lparr>result = Returned (Inl
           \<lparr>Where = ''Giphy Plugin'',
            ErrorId = ''Cannot execute command while the plugin is disabled.'',
            Message = ''Cannot execute command while the plugin is disabled.'',
            DetailedError = [], StatusCode = 400\<rparr>),
         calls = [], state = p\<rparr>)
   \<and> (enabled p \<and> api p = None \<longrightarrow>
      ExecuteCommand p args =
        \<lparr>result = Returned (Inl
           \<lparr>Where = ''Giphy Plugin'',
            ErrorId = ''Cannot access the plugin API.'',
            Message = ''Cannot access the plugin API.'',
            DetailedError = [], StatusCode = 400\<rparr>),
         calls = [], state = p\<rparr>)"
  by (simp add: ExecuteCommand_def appError_def NewAppError_def StatusBadRequest_def)

theorem ExecuteCommand_not_ready_witness:
  "\<not> enabled (example_plugin\<lparr>enabled := False\<rparr>)
   \<and> result (ExecuteCommand (example_plugin\<lparr>enabled := False\<rparr>) (Some \<lparr>Command = ''/gif cat''\<rparr>)) =
       Returned (Inl
           \<lparr>Where = ''Giphy Plugin'',
            ErrorId = ''Cannot execute command while the plugin is disabled.'',
            Message = ''Cannot execute command while the plugin is disabled.'',
            DetailedError = [], StatusCode = 400\<rparr>)
   \<and> enabled (example_plugin\<lparr>api := None\<rparr>) \<and> api (example_plugin\<lparr>api := None\<rparr>) = None
   \<and> result (ExecuteCommand (example_plugin\<lparr>api := None\<rparr>) (Some \<lparr>Command = ''/gifs cat''\<rparr>)) =
       Returned (Inl
           \<lparr>Where = ''Giphy Plugin'',
            ErrorId = ''Cannot access the plugin API.'',
            Message = ''Cannot access the plugin API.'',
            DetailedError = [], StatusCode = 400\<rparr>)"
  using ExecuteCommand_not_ready [of "example_plugin\<lparr>enabled := False\<rparr>" "Some \<lparr>Command = ''/gif cat''\<rparr>"]
    ExecuteCommand_not_ready [of "example_plugin\<lparr>api := None\<rparr>" "Some \<lparr>Command = ''/gifs cat''\<rparr>"]
  by (simp add: example_plugin_def)

text \<open>
  C7. Every error that ExecuteCommand returns has status code 400, the origin
  "Giphy Plugin" and a non-empty message, which is one of four: the plugin is disabled,
  the API handle is missing, the trigger is not supported, or the provider failed. In
  the last case the message is "Unable to get GIF URL", the detail is the provider's
  error, and the provider has been called exactly once; in the other three it has not
  been called. A failing provider call always ends in that error.
\<close>

theorem ExecuteCommand_errors:
  "(result (ExecuteCommand p args) = Returned (Inl e) \<longrightarrow>
      StatusCode e = 400 \<and> Where e = ''Giphy Plugin'' \<and> Message e \<noteq> []
      \<and> length (calls (ExecuteCommand p args)) \<le> 1
      \<and> ((Message e = ''Cannot execute command while the plugin is disabled.''
            \<and> calls (ExecuteCommand p args) = [])
         \<or> (Message e = ''Cannot access the plugin API.''
            \<and> calls (ExecuteCommand p args) = [])
         \<or> (\<exists>a. args = Some a
            \<and> Message e = ''Command trigger '' @ Command a @ ''is not supported by this plugin.''
            \<and> calls (ExecuteCommand p args) = [])
         \<or> (\<exists>cfg provider keywords.
              configuration p = Some cfg \<and> gifProvider p = Some provider
            \<and> Message e = ''Unable to get GIF URL''
            \<and> ((getGifURL provider cfg keywords = Inl (DetailedError e)
                  \<and> calls (ExecuteCommand p args) = [CallGetGifURL cfg keywords])
               \<or> (getMultipleGifsURL provider cfg keywords = Inl (DetailedError e)
                  \<and> calls (ExecuteCommand p args) = [CallGetMultipleGifsURL cfg keywords])))))
   \<and> (configuration q = Some cfg \<and> gifProvider q = Some provider
       \<and> getGifURL provider cfg (getCommandKeywords command triggerGif) = Inl err \<longrightarrow>
       executeCommandGif q command =
         \<lparr>result = Returned (Inl
            \<lparr>Where = ''Giphy Plugin'', ErrorId = ''Unable to get GIF URL'',
             Message = ''Unable to get GIF URL'', DetailedError = err, StatusCode = 400\<rparr>),
          calls = [CallGetGifURL cfg (getCommandKeywords command triggerGif)], state = q\<rparr>)
   \<and> (configuration q = Some cfg \<and> gifProvider q = Some provider
       \<and> getMultipleGifsURL provider cfg (getCommandKeywords command triggerGifs) = Inl err \<longrightarrow>
       executeCommandGifs q command =
         \<lparr>result = Returned (Inl
            \<lparr>Where = ''Giphy Plugin'', ErrorId = ''Unable to get GIF URL'',
             Message = ''Unable to get GIF URL'', DetailedError = err, StatusCode = 400\<rparr>),
          calls = [CallGetMultipleGifsURL cfg (getCommandKeywords command triggerGifs)],
          state = q\<rparr>)"
  using ExecuteCommand_error_shape [of p args e]
    executeCommandGif_failure [of q cfg provider command err]
    executeCommandGifs_failure [of q cfg provider command err]
  by blast

theorem ExecuteCommand_errors_witness:
  "result (ExecuteCommand (example_plugin\<lparr>gifProvider := Some failing_provider\<rparr>)
       (Some \<lparr>Command = ''/gif cat''\<rparr>)) =
     Returned (Inl
       \<lparr>Where = ''Giphy Plugin'', ErrorId = ''Unable to get GIF URL'',
        Message = ''Unable to get GIF URL'', DetailedError = ''timeout'', StatusCode = 400\<rparr>)
   \<and> calls (ExecuteCommand (example_plugin\<lparr>gifProvider := Some failing_provider\<rparr>)
       (Some \<lparr>Command = ''/gif cat''\<rparr>)) = [CallGetGifURL example_configuration ''cat'']
   \<and> configuration (example_plugin\<lparr>gifProvider := Some failing_provider\<rparr>)
       = Some example_configuration
   \<and> gifProvider (example_plugin\<lparr>gifProvider := Some failing_provider\<rparr>)
       = Some failing_provider
   \<and> getMultipleGifsURL failing_provider example_configuration
         (getCommandKeywords ''/gifs cat'' triggerGifs) = Inl ''timeout''
   \<and> executeCommandGifs (example_plugin\<lparr>gifProvider := Some failing_provider\<rparr>) ''/gifs cat'' =
       \<lparr>result = Returned (Inl
          \<lparr>Where = ''Giphy Plugin'', ErrorId = ''Unable to get GIF URL'',
           Message = ''Unable to get GIF URL'', DetailedError = ''timeout'', StatusCode = 400\<rparr>),
        calls = [CallGetMultipleGifsURL example_configuration ''cat''],
        state = example_plugin\<lparr>gifProvider := Some failing_provider\<rparr>\<rparr>"
proof -
  let ?p = "example_plugin\<lparr>gifProvider := Some failing_provider\<rparr>"
  let ?e = "\<lparr>Where = ''Giphy Plugin'', ErrorId = ''Unable to get GIF URL'',
        Message = ''Unable to get GIF URL'', DetailedError = ''timeout'', StatusCode = 400\<rparr>"
  have kw: "getCommandKeywords ''/gif cat'' ''gif'' = ''cat''"
      "getCommandKeywords ''/gifs cat'' ''gifs'' = ''cat''"
    by (simp_all add: getCommandKeywords_def HasPrefix_def Trim_def TrimLeft_def TrimRight_def)
  have run: "ExecuteCommand ?p (Some \<lparr>Command = ''/gif cat''\<rparr>) =
      \<lparr>result = Returned (Inl ?e), calls = [CallGetGifURL example_configuration ''cat''],
       state = ?p\<rparr>"
    by (simp add: ExecuteCommand_def executeCommandGif_def config_def kw example_plugin_def
        failing_provider_def HasPrefix_def triggerGif_def triggerGifs_def appError_def
        NewAppError_def StatusBadRequest_def Let_def)
  then have hyp: "result (ExecuteCommand ?p (Some \<lparr>Command = ''/gif cat''\<rparr>)) = Returned (Inl ?e)"
    by simp
  show ?thesis
    using ExecuteCommand_errors
        [of ?p "Some \<lparr>Command = ''/gif cat''\<rparr>" ?e ?p example_configuration failing_provider
          "''/gifs cat''" "''timeout''"]
      hyp run
    by (simp add: triggerGif_def triggerGifs_def kw example_plugin_def failing_provider_def)
qed

text \<open>
  C9. With an API handle, OnConfigurationChange always returns, with the error of the
  load (if any), and always leaves in the plugin the struct that the load filled,
  starting from the zero value: the snapshot it replaces has no part in the new one,
  also when the load fails.
\<close>

theorem OnConfigurationChange_stores:
  "(api p = Some a \<longrightarrow>
      OnConfigurationChange p =
        \<lparr>result = Returned (snd (LoadPluginConfiguration a zero_configuration)),
         calls = [],
         state = p\<lparr>configuration :=
                     Some (fst (LoadPluginConfiguration a zero_configuration))\<rparr>\<rparr>)
   \<and> (result (OnConfigurationChange p) = Returned err \<longrightarrow>
        (\<exists>h. api p = Some h
           \<and> err = snd (LoadPluginConfiguration h zero_configuration)
           \<and> configuration (state (OnConfigurationChange p)) =
               Some (fst (LoadPluginConfiguration h zero_configuration))))"
  by (cases "api p") (auto simp add: OnConfigurationChange_def split: prod.split)

theorem OnConfigurationChange_stores_witness:
  "api (example_plugin\<lparr>api := Some failing_API\<rparr>) = Some failing_API
   \<and> configuration (example_plugin\<lparr>api := Some failing_API\<rparr>) = Some example_configuration
   \<and> result (OnConfigurationChange (example_plugin\<lparr>api := Some failing_API\<rparr>))
       = Returned (Some ''cannot unmarshal'')
   \<and> configuration (state (OnConfigurationChange (example_plugin\<lparr>api := Some failing_API\<rparr>)))
       = Some zero_configuration
   \<and> example_configuration \<noteq> zero_configuration"
  using OnConfigurationChange_stores
      [of "example_plugin\<lparr>api := Some failing_API\<rparr>" failing_API "Some ''cannot unmarshal''"]
  by (simp add: example_plugin_def failing_API_def example_configuration_def
      zero_configuration_def)

text \<open>
  C10. ExecuteCommand, the two handlers it calls and the configuration read leave the
  plugin struct as it was, whatever the arguments and whatever the provider answers.
  The fields are written by OnDeactivate (enabled), by OnActivate (api, enabled) and by
  OnConfigurationChange (configuration).
\<close>

theorem ExecuteCommand_frame:
  "state (ExecuteCommand p args) = p
   \<and> state (executeCommandGif p command) = p
   \<and> state (executeCommandGifs p command) = p
   \<and> state (OnDeactivate p) = p\<lparr>enabled := False\<rparr>
   \<and> api (state (OnActivate p handle)) = handle
   \<and> enabled (state (OnActivate p handle))
   \<and> gifProvider (state (OnActivate p handle)) = gifProvider p
   \<and> (\<exists>c. state (OnConfigurationChange p) = p\<lparr>configuration := c\<rparr>)"
proof -
  have frame: "state (ExecuteCommand p args) = p
      \<and> state (executeCommandGif p command) = p
      \<and> state (executeCommandGifs p command) = p"
    by (simp add: ExecuteCommand_def executeCommandGif_def executeCommandGifs_def Let_def
        split: option.split sum.split)
  have change: "\<exists>c. state (OnConfigurationChange r) = r\<lparr>configuration := c\<rparr>" for r
  proof (cases "api r")
    case None
    then have "state (OnConfigurationChange r) = r\<lparr>configuration := configuration r\<rparr>"
      by (simp add: OnConfigurationChange_def)
    then show ?thesis
      by blast
  next
    case (Some a)
    then have "state (OnConfigurationChange r) =
        r\<lparr>configuration := Some (fst (LoadPluginConfiguration a zero_configuration))\<rparr>"
      by (simp add: OnConfigurationChange_def split: prod.split)
    then show ?thesis
      by blast
  qed
  have activate: "api (state (OnActivate p handle)) = handle
      \<and> enabled (state (OnActivate p handle))
      \<and> gifProvider (state (OnActivate p handle)) = gifProvider p"
    by (simp add: OnActivate_def OnConfigurationChange_def Let_def
        split: option.split prod.split)
  have "state (OnDeactivate p) = p\<lparr>enabled := False\<rparr>"
    by (simp add: OnDeactivate_def)
  with frame activate change [of p] show ?thesis
    by blast
qed

theorem ExecuteCommand_frame_witness:
  "state (ExecuteCommand example_plugin (Some \<lparr>Command = ''/gif cat''\<rparr>)) = example_plugin
   \<and> state (ExecuteCommand example_plugin (Some \<lparr>Command = ''/gifs cat''\<rparr>)) = example_plugin
   \<and> state (ExecuteCommand example_plugin (Some \<lparr>Command = ''/foo''\<rparr>)) = example_plugin
   \<and> state (ExecuteCommand (example_plugin\<lparr>gifProvider := Some failing_provider\<rparr>)
        (Some \<lparr>Command = ''/gif cat''\<rparr>)) = example_plugin\<lparr>gifProvider := Some failing_provider\<rparr>"
  using ExecuteCommand_frame [of example_plugin "Some \<lparr>Command = ''/gif cat''\<rparr>" "[]" None]
    ExecuteCommand_frame [of example_plugin "Some \<lparr>Command = ''/gifs cat''\<rparr>" "[]" None]
    ExecuteCommand_frame [of example_plugin "Some \<lparr>Command = ''/foo''\<rparr>" "[]" None]
    ExecuteCommand_frame [of "example_plugin\<lparr>gifProvider := Some failing_provider\<rparr>"
      "Some \<lparr>Command = ''/gif cat''\<rparr>" "[]" None]
  by simp

end
